theory Spec2Isabelle
  imports Main "HOL-Library.Sublist" "HOL-Library.Product_Lexorder" "HOL-Library.Multiset"
begin

section \<open>Module constants\<close>

text \<open>
  The embedding follows \<^verbatim>\<open>src/app.py\<close>. Python \<^verbatim>\<open>str\<close> values are modelled as
  \<^typ>\<open>string\<close>; case folding is modelled on the ASCII letters.
\<close>

definition DEFAULT_USER_AGENT :: string where
  "DEFAULT_USER_AGENT =
     ''Mozilla/5.0 (Windows NT 10.0; Win64; x64) AppleWebKit/537.36 '' @
     ''(KHTML, like Gecko) Chrome/94.0.4606.81 Safari/537.36''"

definition MAX_DOWNLOAD_RETRIES :: nat where
  "MAX_DOWNLOAD_RETRIES = 2"

section \<open>Exceptions\<close>

text \<open>
  Every \<^verbatim>\<open>raise\<close> of the source, and every exception a library call of the source can
  raise in the model, is a value of \<open>exn\<close>. \<open>EngineError\<close> stands for whatever subclass of
  \<^verbatim>\<open>Exception\<close> the extraction engine raises; all constructors carry the text that
  \<^verbatim>\<open>str(e)\<close> yields.
\<close>

datatype exn =
    ValueError string
  | FileNotFoundError string
  | FileExistsError string
  | IsADirectoryError string
  | PermissionError string
  | EngineError string

fun str_exn :: "exn \<Rightarrow> string" where
  "str_exn (ValueError m) = m"
| "str_exn (FileNotFoundError m) = m"
| "str_exn (FileExistsError m) = m"
| "str_exn (IsADirectoryError m) = m"
| "str_exn (PermissionError m) = m"
| "str_exn (EngineError m) = m"

section \<open>String operations of Python used by the source\<close>

text \<open>\<^verbatim>\<open>s.startswith(p)\<close> and \<^verbatim>\<open>s.endswith(e)\<close>.\<close>

fun startswith :: "string \<Rightarrow> string \<Rightarrow> bool" where
  "startswith s [] = True"
| "startswith [] (p # ps) = False"
| "startswith (c # cs) (p # ps) = (c = p \<and> startswith cs ps)"

definition endswith :: "string \<Rightarrow> string \<Rightarrow> bool" where
  "endswith s e = startswith (rev s) (rev e)"

text \<open>\<^verbatim>\<open>s.lower()\<close>, on ASCII: the letters A to Z (codes 65 to 90) move up by 32.\<close>

definition is_upper :: "char \<Rightarrow> bool" where
  "is_upper c = (65 \<le> (of_char c :: nat) \<and> (of_char c :: nat) \<le> 90)"

definition lower_char :: "char \<Rightarrow> char" where
  "lower_char c = (if is_upper c then char_of ((of_char c :: nat) + 32) else c)"

definition lower :: "string \<Rightarrow> string" where
  "lower s = map lower_char s"

text \<open>\<^verbatim>\<open>str(n)\<close> for a non-negative integer, and zero padding to a width (\<^verbatim>\<open>%04d\<close>).\<close>

definition digit_char :: "nat \<Rightarrow> char" where
  "digit_char d = char_of (48 + d)"

fun str_nat :: "nat \<Rightarrow> string" where
  "str_nat n = (if n < 10 then [digit_char n] else str_nat (n div 10) @ [digit_char (n mod 10)])"

declare str_nat.simps [simp del]

definition zpad :: "nat \<Rightarrow> nat \<Rightarrow> string" where
  "zpad width n = replicate (width - length (str_nat n)) (CHR ''0'') @ str_nat n"

section \<open>Path operations (posixpath)\<close>

text \<open>
  \<^verbatim>\<open>os.path.join(a, b)\<close> for two components, \<^verbatim>\<open>os.path.basename\<close> and
  \<^verbatim>\<open>os.path.dirname\<close>, as \<^verbatim>\<open>posixpath\<close> defines them: the split is at the last slash,
  and \<^verbatim>\<open>dirname\<close> strips trailing slashes from the head unless the head is all slashes.
\<close>

definition os_path_join :: "string \<Rightarrow> string \<Rightarrow> string" where
  "os_path_join a b =
     (if startswith b ''/'' then b
      else if a = [] \<or> endswith a ''/'' then a @ b
      else a @ ''/'' @ b)"

definition os_path_basename :: "string \<Rightarrow> string" where
  "os_path_basename p = rev (takeWhile (\<lambda>c. c \<noteq> CHR ''/'') (rev p))"

definition rstrip_slash :: "string \<Rightarrow> string" where
  "rstrip_slash s = rev (dropWhile (\<lambda>c. c = CHR ''/'') (rev s))"

definition os_path_dirname :: "string \<Rightarrow> string" where
  "os_path_dirname p =
     (let head = rev (dropWhile (\<lambda>c. c \<noteq> CHR ''/'') (rev p))
      in if head \<noteq> [] \<and> head \<noteq> replicate (length head) (CHR ''/'')
         then rstrip_slash head else head)"

text \<open>\<^verbatim>\<open>s.split('.')[0]\<close>: the text before the first dot.\<close>

definition split_dot_first :: "string \<Rightarrow> string" where
  "split_dot_first s = takeWhile (\<lambda>c. c \<noteq> CHR ''.'') s"

section \<open>Extraction options: \<^verbatim>\<open>get_ydl_opts\<close>\<close>

text \<open>
  The options dictionary is an association list in the order the source writes its keys.
  A value is a string, a boolean, an integer or the list of post-processor dictionaries.
\<close>

datatype opt_value =
    OStr string
  | OBool bool
  | OInt int
  | OPostprocessors "(string \<times> string) list list"

type_synonym ydl_opts = "(string \<times> opt_value) list"

definition get_ydl_opts :: "string \<Rightarrow> string \<Rightarrow> string \<Rightarrow> exn + ydl_opts" where
  "get_ydl_opts file_format quality output_template =
     (if file_format = ''mp4'' then
        (let fmt = ''bestvideo+bestaudio/best'' in
         Inr [(''format'', OStr fmt),
              (''outtmpl'', OStr output_template),
              (''quiet'', OBool True),
              (''ignoreerrors'', OBool False),
              (''nocheckcertificate'', OBool True),
              (''user_agent'', OStr DEFAULT_USER_AGENT),
              (''merge_output_format'', OStr ''mp4''),
              (''retries'', OInt (int MAX_DOWNLOAD_RETRIES)),
              (''concurrent_fragment_downloads'', OInt 5)])
      else if file_format = ''mp3'' then
         Inr [(''format'', OStr ''bestaudio/best''),
              (''outtmpl'', OStr output_template),
              (''postprocessors'', OPostprocessors
                 [[(''key'', ''FFmpegExtractAudio''),
                   (''preferredcodec'', ''mp3''),
                   (''preferredquality'', ''192'')]]),
              (''quiet'', OBool True),
              (''ignoreerrors'', OBool False),
              (''nocheckcertificate'', OBool True),
              (''user_agent'', OStr DEFAULT_USER_AGENT),
              (''retries'', OInt (int MAX_DOWNLOAD_RETRIES))]
      else if file_format \<in> set [''jpg'', ''png''] then
         Inr [(''skip_download'', OBool True),
              (''write_thumbnail'', OBool True),
              (''outtmpl'', OStr output_template),
              (''quiet'', OBool True),
              (''ignoreerrors'', OBool False),
              (''nocheckcertificate'', OBool True)]
      else Inl (ValueError (''Unsupported format: '' @ file_format)))"

text \<open>Reading a key of the options dictionary: \<^verbatim>\<open>opts.get(k)\<close>.\<close>

definition opt_get :: "ydl_opts \<Rightarrow> string \<Rightarrow> opt_value option" where
  "opt_get opts k = map_of opts k"

section \<open>The world the handlers act on\<close>

text \<open>
  The file system is seen through the directories it holds: a path maps to the names
  \<^verbatim>\<open>os.listdir\<close> returns for it, in listing order, or to \<open>None\<close> when no directory
  has that path. An entry \<open>f\<close> of directory \<open>d\<close> is itself a directory when the joined
  path is mapped. \<open>mkdtemp\<close> does not enter the new directory in the listing of its
  parent: the program never lists the parent.
\<close>

type_synonym filesystem = "string \<Rightarrow> string list option"

text \<open>
  A path exists when it is a directory or when its base name is listed in the directory
  of its parent.
\<close>

definition path_exists :: "filesystem \<Rightarrow> string \<Rightarrow> bool" where
  "path_exists files p =
     (case files p of
        Some entries \<Rightarrow> True
      | None \<Rightarrow>
          (case files (os_path_dirname p) of
             None \<Rightarrow> False
           | Some entries \<Rightarrow> os_path_basename p \<in> set entries))"

text \<open>
  \<^verbatim>\<open>os.listdir\<close> of a path that is no directory raises. (For a path that is a regular
  file Python raises \<^verbatim>\<open>NotADirectoryError\<close>; the model does not tell that case from a
  missing path. The program lists the workspace directory only.)
\<close>

definition listdir :: "string \<Rightarrow> filesystem \<Rightarrow> exn + string list" where
  "listdir directory files =
     (case files directory of
        None \<Rightarrow> Inl (FileNotFoundError
          (''[Errno 2] No such file or directory: '' @ [CHR 0x27] @ directory @ [CHR 0x27]))
      | Some entries \<Rightarrow> Inr entries)"

text \<open>
  \<^verbatim>\<open>tempfile.mkdtemp()\<close> tries candidate names until one does not exist yet and creates
  that directory, empty; when every candidate exists it raises \<^verbatim>\<open>FileExistsError\<close>. The
  candidates (absolute paths, drawn at random by the library) are an input of the model.
\<close>

fun mkdtemp :: "string list \<Rightarrow> filesystem \<Rightarrow> exn + (string \<times> filesystem)" where
  "mkdtemp [] files =
     Inl (FileExistsError ''[Errno 17] No usable temporary directory name found'')"
| "mkdtemp (d # ds) files =
     (if path_exists files d then mkdtemp ds files
      else Inr (d, files(d \<mapsto> [])))"

text \<open>
  \<^verbatim>\<open>shutil.rmtree(path, ignore_errors)\<close> walks the tree at \<open>path\<close> and removes what the
  operating system lets it remove. The paths whose removal the operating system refuses
  (an entry of a read-only directory, a file another process holds open) are the list
  \<open>refused\<close>, an input of the model. A path stays when it, or an existing path below it,
  is refused: a directory cannot be removed while an entry of it remains. Every other
  directory of the tree is removed, and a directory that stays keeps the entries that
  stay. With \<open>ignore_errors\<close> the refusals are passed over in silence and the call
  returns; without it the call raises. On a path that is no directory the call raises,
  unless \<open>ignore_errors\<close> is set.
\<close>

definition below :: "string \<Rightarrow> string \<Rightarrow> bool" where
  "below path p = startswith p (if endswith path ''/'' then path else path @ ''/'')"

definition stays :: "string list \<Rightarrow> filesystem \<Rightarrow> string \<Rightarrow> bool" where
  "stays refused files p =
     list_ex (\<lambda>q. path_exists files q \<and> (q = p \<or> below p q)) refused"

definition rmtree :: "string \<Rightarrow> bool \<Rightarrow> string list \<Rightarrow> filesystem \<Rightarrow> exn + filesystem" where
  "rmtree path ignore_errors refused files =
     (case files path of
        None \<Rightarrow>
          if ignore_errors then Inr files
          else Inl (FileNotFoundError
            (''[Errno 2] No such file or directory: '' @ [CHR 0x27] @ path @ [CHR 0x27]))
      | Some entries \<Rightarrow>
          if stays refused files path \<and> \<not> ignore_errors
          then Inl (PermissionError
            (''[Errno 13] Permission denied: '' @ [CHR 0x27] @ path @ [CHR 0x27]))
          else Inr (\<lambda>p.
            if p = path \<or> below path p then
              (case files p of
                 None \<Rightarrow> None
               | Some listing \<Rightarrow>
                   if stays refused files p
                   then Some (filter (\<lambda>f. stays refused files (os_path_join p f)) listing)
                   else None)
            else files p))"

text \<open>Log records: \<^verbatim>\<open>logging.warning(msg)\<close> and \<^verbatim>\<open>logging.exception(msg)\<close> inside a handler.\<close>

datatype log_record =
    Warning string
  | Exception_record string exn

text \<open>
  The \<^verbatim>\<open>DownloadHistory\<close> table and the clock its \<^verbatim>\<open>timestamp\<close> default reads. The
  application sets \<^verbatim>\<open>url\<close>, \<^verbatim>\<open>file_format\<close> and \<^verbatim>\<open>quality\<close> of every row it inserts and
  the column default sets the timestamp, so no field of a row is \<^verbatim>\<open>None\<close>.
\<close>

record datetime =
  dt_year :: nat
  dt_month :: nat
  dt_day :: nat
  dt_hour :: nat
  dt_minute :: nat
  dt_second :: nat
  dt_microsecond :: nat

record DownloadHistory =
  dh_id :: nat
  dh_url :: string
  dh_file_format :: string
  dh_quality :: string
  dh_timestamp :: datetime

text \<open>
  The state: the file system, the environment of the extraction engine (network and
  remote sites, of a type the engine chooses), the log, the history table, the reading of
  \<^verbatim>\<open>datetime.utcnow\<close>, the names \<^verbatim>\<open>mkdtemp\<close> will try, the paths whose removal the
  operating system refuses, and a counter of the calls made into the engine (a ghost
  field: the program does not read it).
\<close>

record 'e world =
  w_files :: filesystem
  w_net :: 'e
  w_log :: "log_record list"
  w_history :: "DownloadHistory list"
  w_utcnow :: datetime
  w_tmpnames :: "string list"
  w_refused :: "string list"
  w_engine_calls :: nat

text \<open>
  The extraction engine, \<^verbatim>\<open>with yt_dlp.YoutubeDL(opts) as ydl: ydl.extract_info(url,
  download=True)\<close>, is a black box: from the url, the options, the file system and its
  environment it either returns (\<open>None\<close>) or raises (\<open>Some e\<close>), and leaves a new file
  system and environment. It reaches neither the log nor the history table.
\<close>

type_synonym 'e engine =
  "string \<Rightarrow> ydl_opts \<Rightarrow> filesystem \<times> 'e \<Rightarrow> exn option \<times> (filesystem \<times> 'e)"

section \<open>\<^verbatim>\<open>download_single\<close>\<close>

text \<open>
  The retry loop, \<^verbatim>\<open>for attempt in range(MAX_DOWNLOAD_RETRIES)\<close>, as a recursion over
  the remaining attempt numbers. A call that returns leaves the loop (\<^verbatim>\<open>break\<close>); a call
  that raises logs one warning and, on the attempt numbered \<open>MAX_DOWNLOAD_RETRIES - 1\<close>,
  re-raises. The result is the exception that left the loop, if any.
\<close>

definition attempt_warning :: "nat \<Rightarrow> exn \<Rightarrow> log_record" where
  "attempt_warning attempt e =
     Warning (''Attempt '' @ str_nat (attempt + 1) @ '' failed: '' @ str_exn e)"

fun attempt_loop ::
  "'e engine \<Rightarrow> string \<Rightarrow> ydl_opts \<Rightarrow> nat list \<Rightarrow> 'e world \<Rightarrow> exn option \<times> 'e world" where
  "attempt_loop ydl url opts [] w = (None, w)"
| "attempt_loop ydl url opts (attempt # rest) w =
     (case ydl url opts (w_files w, w_net w) of
        (None, (files', net')) \<Rightarrow>
          (None, w\<lparr>w_files := files', w_net := net',
                    w_engine_calls := Suc (w_engine_calls w)\<rparr>)
      | (Some e, (files', net')) \<Rightarrow>
          (let w' = w\<lparr>w_files := files', w_net := net',
                       w_engine_calls := Suc (w_engine_calls w),
                       w_log := w_log w @ [attempt_warning attempt e]\<rparr>
           in if attempt = MAX_DOWNLOAD_RETRIES - 1 then (Some e, w')
              else attempt_loop ydl url opts rest w'))"

text \<open>
  The search for the downloaded file: the test of one directory entry, the loop over the
  listing, and the whole stage from the output template. The source's variable
  \<^verbatim>\<open>prefix\<close> is \<open>pfx\<close> here.
\<close>

definition entry_matches :: "string \<Rightarrow> string \<Rightarrow> string \<Rightarrow> bool" where
  "entry_matches pfx file_format f =
     (startswith f pfx \<and> endswith (lower f) file_format)"

fun find_downloaded :: "string \<Rightarrow> string \<Rightarrow> string \<Rightarrow> string list \<Rightarrow> exn + string" where
  "find_downloaded directory pfx file_format [] =
     Inl (FileNotFoundError (''No .'' @ file_format @ '' found for '' @ pfx))"
| "find_downloaded directory pfx file_format (f # rest) =
     (if entry_matches pfx file_format f then Inr (os_path_join directory f)
      else find_downloaded directory pfx file_format rest)"

definition resolve_output :: "string \<Rightarrow> string \<Rightarrow> filesystem \<Rightarrow> exn + string" where
  "resolve_output output_template file_format files =
     (let directory = os_path_dirname output_template;
          pfx = split_dot_first (os_path_basename output_template)
      in case listdir directory files of
           Inl e \<Rightarrow> Inl e
         | Inr entries \<Rightarrow> find_downloaded directory pfx file_format entries)"

definition download_single ::
  "'e engine \<Rightarrow> string \<Rightarrow> string \<Rightarrow> string \<Rightarrow> string \<Rightarrow> 'e world \<Rightarrow> (exn + string) \<times> 'e world" where
  "download_single ydl url file_format quality output_template w =
     (case get_ydl_opts file_format quality output_template of
        Inl e \<Rightarrow> (Inl e, w)
      | Inr opts \<Rightarrow>
          (case attempt_loop ydl url opts [0 ..< MAX_DOWNLOAD_RETRIES] w of
             (Some e, w') \<Rightarrow> (Inl e, w')
           | (None, w') \<Rightarrow> (resolve_output output_template file_format (w_files w'), w')))"

section \<open>The routes\<close>

datatype json =
    JStr string
  | JInt nat
  | JArray "json list"
  | JObject "(string \<times> json) list"

text \<open>
  A response: a text body, \<^verbatim>\<open>jsonify(...)\<close> with its status code, or
  \<^verbatim>\<open>send_file(path, as_attachment=True, download_name=...)\<close>.
\<close>

datatype response =
    Text_response string
  | Json_response json nat
  | File_response string string

definition index :: response where
  "index = Text_response ''JustPaste Backend Running!''"

text \<open>
  The query arguments: \<^verbatim>\<open>request.args.get(k)\<close> is \<open>None\<close> for an absent key. \<^verbatim>\<open>not x\<close>
  holds for \<open>None\<close> and for the empty string, and \<^verbatim>\<open>x or d\<close> is \<open>d\<close> in exactly those cases.
\<close>

record request_args =
  arg_url :: "string option"
  arg_format :: "string option"
  arg_quality :: "string option"

fun py_not :: "string option \<Rightarrow> bool" where
  "py_not None = True"
| "py_not (Some s) = (s = [])"

fun py_or :: "string option \<Rightarrow> string \<Rightarrow> string" where
  "py_or None d = d"
| "py_or (Some s) d = (if s = [] then d else s)"

text \<open>
  \<^verbatim>\<open>db.session.add(DownloadHistory(url=..., file_format=..., quality=...))\<close> followed by
  \<^verbatim>\<open>db.session.commit()\<close>: the row gets the next integer key and the clock's reading.
\<close>

definition next_id :: "DownloadHistory list \<Rightarrow> nat" where
  "next_id table = Suc (fold max (map dh_id table) 0)"

definition add_and_commit :: "string \<Rightarrow> string \<Rightarrow> string \<Rightarrow> 'e world \<Rightarrow> 'e world" where
  "add_and_commit url file_format quality w =
     w\<lparr>w_history := w_history w @
          [\<lparr>dh_id = next_id (w_history w), dh_url = url, dh_file_format = file_format,
            dh_quality = quality, dh_timestamp = w_utcnow w\<rparr>]\<rparr>"

text \<open>
  \<^verbatim>\<open>send_file\<close> opens the path; on a directory that raises.
\<close>

definition send_file :: "string \<Rightarrow> string \<Rightarrow> filesystem \<Rightarrow> exn + response" where
  "send_file path download_name files =
     (case files path of
        None \<Rightarrow> Inr (File_response path download_name)
      | Some entries \<Rightarrow>
          Inl (IsADirectoryError
            (''[Errno 21] Is a directory: '' @ [CHR 0x27] @ path @ [CHR 0x27])))"

text \<open>
  \<^verbatim>\<open>download_get\<close> in three layers, as the source nests them: the body of the \<^verbatim>\<open>try\<close>,
  the \<^verbatim>\<open>except Exception\<close> clause around it, and the \<^verbatim>\<open>finally\<close> clause around both.
  \<^verbatim>\<open>mkdtemp\<close> is called before the \<^verbatim>\<open>try\<close>: an exception it raises leaves the handler.
  Past the guard both arguments are present, so the last case of \<open>download_get\<close> is
  never taken.
\<close>

definition download_get_try ::
  "'e engine \<Rightarrow> string \<Rightarrow> string \<Rightarrow> string \<Rightarrow> string \<Rightarrow> 'e world \<Rightarrow> (exn + response) \<times> 'e world" where
  "download_get_try ydl url fmt quality tmp w =
     (let out = os_path_join tmp ''dl.%(ext)s'' in
      case download_single ydl url fmt quality out w of
        (Inl e, w1) \<Rightarrow> (Inl e, w1)
      | (Inr path, w1) \<Rightarrow>
          (let w2 = add_and_commit url fmt quality w1 in
           case send_file path (''JustPaste.'' @ fmt) (w_files w2) of
             Inl e \<Rightarrow> (Inl e, w2)
           | Inr resp \<Rightarrow> (Inr resp, w2)))"

definition download_get_except ::
  "'e engine \<Rightarrow> string \<Rightarrow> string \<Rightarrow> string \<Rightarrow> string \<Rightarrow> 'e world \<Rightarrow> response \<times> 'e world" where
  "download_get_except ydl url fmt quality tmp w =
     (case download_get_try ydl url fmt quality tmp w of
        (Inr resp, w') \<Rightarrow> (resp, w')
      | (Inl e, w') \<Rightarrow>
          (Json_response (JObject [(''error'', JStr (str_exn e))]) 500,
           w'\<lparr>w_log := w_log w' @ [Exception_record ''Download error'' e]\<rparr>))"

definition download_get_finally ::
  "'e engine \<Rightarrow> string \<Rightarrow> string \<Rightarrow> string \<Rightarrow> string \<Rightarrow> 'e world \<Rightarrow> (exn + response) \<times> 'e world" where
  "download_get_finally ydl url fmt quality tmp w =
     (case download_get_except ydl url fmt quality tmp w of
        (resp, w') \<Rightarrow>
          (case rmtree tmp True (w_refused w') (w_files w') of
             Inl e \<Rightarrow> (Inl e, w')
           | Inr files' \<Rightarrow> (Inr resp, w'\<lparr>w_files := files'\<rparr>)))"

definition missing_parameters :: response where
  "missing_parameters = Json_response (JObject [(''error'', JStr ''Missing parameters'')]) 400"

definition download_get ::
  "'e engine \<Rightarrow> request_args \<Rightarrow> 'e world \<Rightarrow> (exn + response) \<times> 'e world" where
  "download_get ydl args w =
     (let quality = py_or (arg_quality args) ''best'' in
      if py_not (arg_url args) \<or> py_not (arg_format args) then (Inr missing_parameters, w)
      else
        (case (arg_url args, arg_format args) of
           (Some url, Some fmt) \<Rightarrow>
             (case mkdtemp (w_tmpnames w) (w_files w) of
                Inl e \<Rightarrow> (Inl e, w)
              | Inr (tmp, files1) \<Rightarrow>
                  download_get_finally ydl url fmt quality tmp (w\<lparr>w_files := files1\<rparr>))
         | _ \<Rightarrow> (Inr missing_parameters, w)))"

text \<open>
  \<^verbatim>\<open>history\<close>: the rows ordered by \<^verbatim>\<open>timestamp\<close> descending, each through \<^verbatim>\<open>as_dict\<close>.
  The ordering key is the tuple of the timestamp's fields, compared lexicographically.
  Where two rows carry the same timestamp the database promises no order; the model
  returns them in insertion order, as SQLite's sorter does.
\<close>

definition timestamp_key :: "datetime \<Rightarrow> nat \<times> nat \<times> nat \<times> nat \<times> nat \<times> nat \<times> nat" where
  "timestamp_key t =
     (dt_year t, dt_month t, dt_day t, dt_hour t, dt_minute t, dt_second t, dt_microsecond t)"

definition isoformat :: "datetime \<Rightarrow> string" where
  "isoformat t =
     zpad 4 (dt_year t) @ ''-'' @ zpad 2 (dt_month t) @ ''-'' @ zpad 2 (dt_day t) @ ''T'' @
     zpad 2 (dt_hour t) @ '':'' @ zpad 2 (dt_minute t) @ '':'' @ zpad 2 (dt_second t) @
     (if dt_microsecond t = 0 then [] else ''.'' @ zpad 6 (dt_microsecond t))"

definition as_dict :: "DownloadHistory \<Rightarrow> (string \<times> json) list" where
  "as_dict r =
     [(''id'', JInt (dh_id r)),
      (''url'', JStr (dh_url r)),
      (''file_format'', JStr (dh_file_format r)),
      (''quality'', JStr (dh_quality r)),
      (''timestamp'', JStr (isoformat (dh_timestamp r) @ ''Z''))]"

definition order_by_timestamp_desc :: "DownloadHistory list \<Rightarrow> DownloadHistory list" where
  "order_by_timestamp_desc table =
     rev (sort_key (\<lambda>r. timestamp_key (dh_timestamp r)) (rev table))"

definition history :: "'e world \<Rightarrow> response" where
  "history w =
     Json_response (JArray (map (\<lambda>r. JObject (as_dict r)) (order_by_timestamp_desc (w_history w)))) 200"

section \<open>Notions the specification names\<close>

text \<open>
  The value range of Python's \<^verbatim>\<open>datetime\<close>, which every reading of the clock and every
  value read back from the table satisfies.
\<close>

definition valid_datetime :: "datetime \<Rightarrow> bool" where
  "valid_datetime t =
     (1 \<le> dt_year t \<and> dt_year t \<le> 9999 \<and> 1 \<le> dt_month t \<and> dt_month t \<le> 12 \<and>
      1 \<le> dt_day t \<and> dt_day t \<le> 31 \<and> dt_hour t < 24 \<and> dt_minute t < 60 \<and>
      dt_second t < 60 \<and> dt_microsecond t < 1000000)"

text \<open>
  The specification's "ISO-8601 UTC timestamp (suffixed Z)", written out independently of
  \<open>isoformat\<close>: a string has the shape of a picture when it has the picture's length,
  shows a decimal digit wherever the picture shows \<open>d\<close>, and agrees with the picture
  everywhere else. The pictures are the extended format with and without a fraction of
  six digits.
\<close>

definition is_digit :: "char \<Rightarrow> bool" where
  "is_digit c = (48 \<le> (of_char c :: nat) \<and> (of_char c :: nat) \<le> 57)"

fun has_shape :: "string \<Rightarrow> string \<Rightarrow> bool" where
  "has_shape [] [] = True"
| "has_shape (p # ps) [] = False"
| "has_shape [] (c # cs) = False"
| "has_shape (p # ps) (c # cs) =
     ((if p = CHR ''d'' then is_digit c else c = p) \<and> has_shape ps cs)"

definition iso8601_utc :: "string \<Rightarrow> bool" where
  "iso8601_utc s =
     (has_shape ''dddd-dd-ddTdd:dd:ddZ'' s \<or> has_shape ''dddd-dd-ddTdd:dd:dd.ddddddZ'' s)"

section \<open>Fixtures for the scenarios\<close>

text \<open>
  An extractor stub in the sense of the specification's end-to-end scenarios. Its
  environment counts the calls made so far: the first \<open>failures\<close> calls raise, every later
  call adds the entries \<open>produced\<close> to the directory of the output template and returns.
\<close>

definition stub_engine :: "nat \<Rightarrow> string list \<Rightarrow> nat engine" where
  "stub_engine failures produced url opts x =
     (case x of (files, calls) \<Rightarrow>
        if calls < failures then (Some (EngineError ''timed out''), (files, Suc calls))
        else
          (case opt_get opts ''outtmpl'' of
             Some (OStr t) \<Rightarrow>
               (None,
                (files(os_path_dirname t \<mapsto>
                   (case files (os_path_dirname t) of
                      None \<Rightarrow> produced
                    | Some entries \<Rightarrow> entries @ produced)),
                 Suc calls))
           | _ \<Rightarrow> (Some (EngineError ''no output template''), (files, Suc calls))))"

definition start_world :: "nat world" where
  "start_world =
     \<lparr>w_files = Map.empty, w_net = 0, w_log = [], w_history = [],
      w_utcnow = \<lparr>dt_year = 2024, dt_month = 3, dt_day = 9, dt_hour = 7, dt_minute = 5,
                  dt_second = 0, dt_microsecond = 0\<rparr>,
      w_tmpnames = [''/tmp/job''], w_refused = [], w_engine_calls = 0\<rparr>"

definition refusing_world :: "nat world" where
  "refusing_world = start_world\<lparr>w_refused := [''/tmp/job/dl.mp4'']\<rparr>"

definition video_request :: request_args where
  "video_request =
     \<lparr>arg_url = Some ''https://example.com/video'', arg_format = Some ''mp4'',
      arg_quality = None\<rparr>"

definition first_row :: DownloadHistory where
  "first_row =
     \<lparr>dh_id = 1, dh_url = ''https://example.com/video'', dh_file_format = ''mp4'',
      dh_quality = ''best'', dh_timestamp = w_utcnow start_world\<rparr>"

definition second_row :: DownloadHistory where
  "second_row =
     \<lparr>dh_id = 2, dh_url = ''https://example.com/audio'', dh_file_format = ''mp3'',
      dh_quality = ''best'',
      dh_timestamp = \<lparr>dt_year = 2024, dt_month = 3, dt_day = 9, dt_hour = 7, dt_minute = 5,
                      dt_second = 0, dt_microsecond = 1234\<rparr>\<rparr>"

definition recorded_world :: "nat world" where
  "recorded_world = start_world\<lparr>w_history := [first_row, second_row]\<rparr>"

section \<open>Auxiliary facts\<close>

lemma startswith_prefix: "startswith s p \<longleftrightarrow> prefix p s"
  by (induction s p rule: startswith.induct) auto

lemma endswith_suffix: "endswith s e \<longleftrightarrow> suffix e s"
  by (simp add: endswith_def startswith_prefix suffix_to_prefix)

lemma lower_char_not_upper: "\<not> is_upper (lower_char c)"
  unfolding lower_char_def is_upper_def
  by (auto simp: of_char_of)

lemma lower_no_upper: "c \<in> set (lower f) \<Longrightarrow> \<not> is_upper c"
  by (auto simp: lower_def lower_char_not_upper)

lemma attempts: "[0 ..< MAX_DOWNLOAD_RETRIES] = [0, 1]"
  by (simp add: MAX_DOWNLOAD_RETRIES_def upt_rec)

lemma str_nat_1: "str_nat (Suc 0) = ''1''"
  by code_simp

lemma str_nat_2: "str_nat (Suc (Suc 0)) = ''2''"
  by code_simp

lemma find_downloaded_find:
  "find_downloaded directory pfx file_format entries =
     (case List.find (entry_matches pfx file_format) entries of
        None \<Rightarrow> Inl (FileNotFoundError (''No .'' @ file_format @ '' found for '' @ pfx))
      | Some f \<Rightarrow> Inr (os_path_join directory f))"
  by (induction entries) auto

lemma get_ydl_opts_supported:
  "get_ydl_opts file_format quality output_template = Inr opts \<Longrightarrow>
     file_format \<in> set [''mp4'', ''mp3'', ''jpg'', ''png'']"
  by (auto simp: get_ydl_opts_def split: if_splits)

lemma supported_lower:
  assumes "file_format \<in> set [''mp4'', ''mp3'', ''jpg'', ''png'']"
  shows "lower file_format = file_format"
proof -
  have "lower ''mp4'' = ''mp4''" "lower ''mp3'' = ''mp3''" "lower ''jpg'' = ''jpg''"
    "lower ''png'' = ''png''"
    by code_simp+
  with assms show ?thesis by auto
qed

lemma rmtree_ignore_errors:
  "\<exists>files'. rmtree path True refused files = Inr files' \<and>
     (files' path = None) = (files path = None \<or> \<not> stays refused files path)"
  by (cases "files path") (auto simp: rmtree_def)

lemma not_refused_not_stays:
  "\<not> list_ex (\<lambda>q. q = p \<or> below p q) refused \<Longrightarrow> \<not> stays refused files p"
  by (auto simp: stays_def list_ex_iff)

lemma mkdtemp_creates:
  "mkdtemp names files = Inr (tmp, files1) \<Longrightarrow> files tmp = None \<and> files1 = files(tmp \<mapsto> [])"
  by (induction names) (auto simp: path_exists_def split: if_splits option.splits)

lemma attempt_loop_keeps:
  "attempt_loop ydl url opts attempts w = (r, w') \<Longrightarrow>
     w_history w' = w_history w \<and> w_utcnow w' = w_utcnow w \<and> w_tmpnames w' = w_tmpnames w
     \<and> w_refused w' = w_refused w"
proof (induction attempts arbitrary: w)
  case Nil
  then show ?case by auto
next
  case (Cons a attempts)
  then show ?case
    by (fastforce split: prod.splits option.splits if_splits simp: Let_def)
qed

lemma download_single_keeps:
  assumes "download_single ydl url file_format quality output_template w = (r, w')"
  shows "w_history w' = w_history w \<and> w_utcnow w' = w_utcnow w \<and> w_refused w' = w_refused w"
proof (cases "get_ydl_opts file_format quality output_template")
  case (Inl e)
  with assms show ?thesis by (simp add: download_single_def)
next
  case (Inr opts)
  obtain r1 w1 where l: "attempt_loop ydl url opts [0 ..< MAX_DOWNLOAD_RETRIES] w = (r1, w1)"
    by (cases "attempt_loop ydl url opts [0 ..< MAX_DOWNLOAD_RETRIES] w")
  from attempt_loop_keeps [OF l]
  have k: "w_history w1 = w_history w \<and> w_utcnow w1 = w_utcnow w \<and> w_refused w1 = w_refused w"
    by simp
  from assms Inr l have "w' = w1"
    by (cases r1) (auto simp: download_single_def)
  with k show ?thesis by simp
qed

lemma try_failed:
  assumes "download_single ydl url fmt quality (os_path_join tmp ''dl.%(ext)s'') w = (Inl e, w1)"
  shows "download_get_try ydl url fmt quality tmp w = (Inl e, w1)"
  using assms by (simp add: download_get_try_def)

lemma add_and_commit_files: "w_files (add_and_commit url fmt quality w) = w_files w"
  by (simp add: add_and_commit_def)

lemma try_resolved:
  assumes "download_single ydl url fmt quality (os_path_join tmp ''dl.%(ext)s'') w = (Inr path, w1)"
  shows "download_get_try ydl url fmt quality tmp w =
           (send_file path (''JustPaste.'' @ fmt) (w_files w1), add_and_commit url fmt quality w1)"
  using assms by (simp add: download_get_try_def Let_def add_and_commit_files split: sum.splits)

lemma send_file_cases:
  "send_file path name files = Inr resp \<Longrightarrow> resp = File_response path name"
  by (auto simp: send_file_def split: option.splits)

lemma try_success:
  assumes "download_get_try ydl url fmt quality tmp w = (Inr resp, w')"
  shows "\<exists>path. resp = File_response path (''JustPaste.'' @ fmt) \<and>
           w_history w' = w_history w @
             [\<lparr>dh_id = next_id (w_history w), dh_url = url, dh_file_format = fmt,
               dh_quality = quality, dh_timestamp = w_utcnow w\<rparr>]"
proof -
  obtain r1 w1 where d: "download_single ydl url fmt quality (os_path_join tmp ''dl.%(ext)s'') w = (r1, w1)"
    by (cases "download_single ydl url fmt quality (os_path_join tmp ''dl.%(ext)s'') w")
  show ?thesis
  proof (cases r1)
    case (Inl e)
    with d assms show ?thesis by (simp add: try_failed)
  next
    case (Inr path)
    with d have t: "download_get_try ydl url fmt quality tmp w =
           (send_file path (''JustPaste.'' @ fmt) (w_files w1), add_and_commit url fmt quality w1)"
      by (simp add: try_resolved)
    with assms have s: "send_file path (''JustPaste.'' @ fmt) (w_files w1) = Inr resp"
      and w': "w' = add_and_commit url fmt quality w1" by simp_all
    from download_single_keeps [OF d] w' send_file_cases [OF s] show ?thesis
      by (simp add: add_and_commit_def)
  qed
qed

lemma except_cases:
  "download_get_except ydl url fmt quality tmp w = (resp, w') \<Longrightarrow>
     (download_get_try ydl url fmt quality tmp w = (Inr resp, w')) \<or>
     (\<exists>e. resp = Json_response (JObject [(''error'', JStr (str_exn e))]) 500)"
  by (auto simp: download_get_except_def split: prod.splits sum.splits)

lemma try_keeps_refused:
  assumes "download_get_try ydl url fmt quality tmp w = (r, w')"
  shows "w_refused w' = w_refused w"
proof -
  obtain r1 w1 where d:
    "download_single ydl url fmt quality (os_path_join tmp ''dl.%(ext)s'') w = (r1, w1)"
    by (cases "download_single ydl url fmt quality (os_path_join tmp ''dl.%(ext)s'') w")
  from download_single_keeps [OF d] have k: "w_refused w1 = w_refused w" by simp
  show ?thesis
  proof (cases r1)
    case (Inl e)
    with d assms k show ?thesis by (simp add: try_failed)
  next
    case (Inr path)
    with d assms k show ?thesis by (auto simp: try_resolved add_and_commit_def)
  qed
qed

lemma except_keeps_refused:
  assumes "download_get_except ydl url fmt quality tmp w = (resp, w')"
  shows "w_refused w' = w_refused w"
proof -
  obtain r w1 where t: "download_get_try ydl url fmt quality tmp w = (r, w1)"
    by (cases "download_get_try ydl url fmt quality tmp w")
  from try_keeps_refused [OF t] t assms show ?thesis
    by (cases r) (auto simp: download_get_except_def)
qed

lemma finally_result:
  "\<exists>resp w1 files'. download_get_except ydl url fmt quality tmp w = (resp, w1) \<and>
      rmtree tmp True (w_refused w1) (w_files w1) = Inr files' \<and>
      (files' tmp = None) = (w_files w1 tmp = None \<or> \<not> stays (w_refused w1) (w_files w1) tmp) \<and>
      download_get_finally ydl url fmt quality tmp w = (Inr resp, w1\<lparr>w_files := files'\<rparr>)"
proof -
  obtain resp w1 where e: "download_get_except ydl url fmt quality tmp w = (resp, w1)"
    by (cases "download_get_except ydl url fmt quality tmp w")
  from rmtree_ignore_errors [of tmp "w_refused w1" "w_files w1"]
  obtain files' where r: "rmtree tmp True (w_refused w1) (w_files w1) = Inr files'"
    and g: "(files' tmp = None) =
      (w_files w1 tmp = None \<or> \<not> stays (w_refused w1) (w_files w1) tmp)"
    by (elim exE conjE) (rule that)
  from e r have "download_get_finally ydl url fmt quality tmp w = (Inr resp, w1\<lparr>w_files := files'\<rparr>)"
    by (simp add: download_get_finally_def)
  with e r g show ?thesis by (intro exI conjI)
qed

lemma download_get_job:
  assumes "\<not> py_not (arg_url args)" "\<not> py_not (arg_format args)"
  shows "\<exists>url fmt. arg_url args = Some url \<and> arg_format args = Some fmt \<and>
           download_get ydl args w =
             (case mkdtemp (w_tmpnames w) (w_files w) of
                Inl e \<Rightarrow> (Inl e, w)
              | Inr (tmp, files1) \<Rightarrow>
                  download_get_finally ydl url fmt (py_or (arg_quality args) ''best'') tmp
                    (w\<lparr>w_files := files1\<rparr>))"
proof -
  from assms obtain url fmt where "arg_url args = Some url" "arg_format args = Some fmt"
    by (cases "arg_url args"; cases "arg_format args") auto
  with assms show ?thesis by (simp add: download_get_def)
qed

lemma has_shape_append:
  "has_shape p1 s1 \<Longrightarrow> has_shape p2 s2 \<Longrightarrow> has_shape (p1 @ p2) (s1 @ s2)"
  by (induction p1 s1 rule: has_shape.induct) auto

lemma has_shape_digits:
  "length s = k \<Longrightarrow> list_all is_digit s \<Longrightarrow> has_shape (replicate k (CHR ''d'')) s"
  by (induction s arbitrary: k) auto

lemma is_digit_digit_char: "d < 10 \<Longrightarrow> is_digit (digit_char d)"
  by (simp add: is_digit_def digit_char_def of_char_of)

lemma str_nat_digits: "list_all is_digit (str_nat n)"
proof (induction n rule: str_nat.induct)
  case (1 n)
  then show ?case
    by (subst str_nat.simps) (simp add: is_digit_digit_char)
qed

lemma str_nat_length: "0 < k \<Longrightarrow> n < 10 ^ k \<Longrightarrow> length (str_nat n) \<le> k"
proof (induction n arbitrary: k rule: str_nat.induct)
  case (1 n)
  show ?case
  proof (cases "n < 10")
    case True
    with "1.prems" show ?thesis by (subst str_nat.simps) simp
  next
    case False
    with "1.prems" obtain j where k: "k = Suc j" "0 < j"
      by (cases k; cases "k - 1") auto
    with "1.prems" have "n div 10 < 10 ^ j"
      by (simp add: less_mult_imp_div_less mult.commute)
    with "1.IH" [OF False k(2)] have "length (str_nat (n div 10)) \<le> j" by simp
    with False k show ?thesis by (subst str_nat.simps) simp
  qed
qed

lemma zpad_shape:
  assumes "0 < k" "n < 10 ^ k"
  shows "has_shape (replicate k (CHR ''d'')) (zpad k n)"
proof -
  have "is_digit (CHR ''0'')" by (simp add: is_digit_def)
  with str_nat_digits [of n] have "list_all is_digit (zpad k n)"
    by (auto simp: zpad_def list_all_iff)
  moreover from str_nat_length [OF assms] have "length (zpad k n) = k"
    by (simp add: zpad_def)
  ultimately show ?thesis by (simp add: has_shape_digits)
qed

lemma isoformat_shape:
  assumes "valid_datetime t"
  shows "iso8601_utc (isoformat t @ ''Z'')"
proof -
  from assms have
    y: "has_shape (replicate 4 (CHR ''d'')) (zpad 4 (dt_year t))" and
    mo: "has_shape (replicate 2 (CHR ''d'')) (zpad 2 (dt_month t))" and
    d: "has_shape (replicate 2 (CHR ''d'')) (zpad 2 (dt_day t))" and
    h: "has_shape (replicate 2 (CHR ''d'')) (zpad 2 (dt_hour t))" and
    mi: "has_shape (replicate 2 (CHR ''d'')) (zpad 2 (dt_minute t))" and
    s: "has_shape (replicate 2 (CHR ''d'')) (zpad 2 (dt_second t))" and
    us: "has_shape (replicate 6 (CHR ''d'')) (zpad 6 (dt_microsecond t))"
    by (auto simp: valid_datetime_def intro!: zpad_shape)
  have sep: "has_shape ''-'' ''-''" "has_shape ''T'' ''T''" "has_shape '':'' '':''"
    "has_shape ''.'' ''.''" "has_shape ''Z'' ''Z''"
    by simp_all
  have base: "has_shape
      (replicate 4 (CHR ''d'') @ ''-'' @ replicate 2 (CHR ''d'') @ ''-'' @ replicate 2 (CHR ''d'') @ ''T'' @
       replicate 2 (CHR ''d'') @ '':'' @ replicate 2 (CHR ''d'') @ '':'' @ replicate 2 (CHR ''d''))
      (zpad 4 (dt_year t) @ ''-'' @ zpad 2 (dt_month t) @ ''-'' @ zpad 2 (dt_day t) @ ''T'' @
       zpad 2 (dt_hour t) @ '':'' @ zpad 2 (dt_minute t) @ '':'' @ zpad 2 (dt_second t))"
    by (intro has_shape_append y mo d h mi s sep)
  show ?thesis
  proof (cases "dt_microsecond t = 0")
    case True
    from has_shape_append [OF base sep(5)] True
    have "has_shape ''dddd-dd-ddTdd:dd:ddZ'' (isoformat t @ ''Z'')"
      by (simp add: isoformat_def numeral_eq_Suc)
    then show ?thesis by (simp add: iso8601_utc_def)
  next
    case False
    from has_shape_append [OF base has_shape_append [OF sep(4) has_shape_append [OF us sep(5)]]] False
    have "has_shape ''dddd-dd-ddTdd:dd:dd.ddddddZ'' (isoformat t @ ''Z'')"
      by (simp add: isoformat_def numeral_eq_Suc)
    then show ?thesis by (simp add: iso8601_utc_def)
  qed
qed

lemma order_by_mset: "mset (order_by_timestamp_desc table) = mset table"
  by (simp add: order_by_timestamp_desc_def)

lemma order_by_sorted:
  "sorted_wrt (\<lambda>a b. timestamp_key (dh_timestamp a) \<ge> timestamp_key (dh_timestamp b))
     (order_by_timestamp_desc table)"
proof -
  have "sorted (map (\<lambda>r. timestamp_key (dh_timestamp r))
          (sort_key (\<lambda>r. timestamp_key (dh_timestamp r)) (rev table)))"
    by (rule sorted_sort_key)
  then show ?thesis
    by (simp add: order_by_timestamp_desc_def sorted_wrt_rev sorted_map)
qed

section \<open>Strategy selection\<close>

text \<open>
  C7. For every format and every two quality values, \<open>get_ydl_opts\<close> returns the same
  result: the quality argument is accepted and never looked at. With equal options the
  selected format string is equal in particular, and so is the whole of
  \<open>download_single\<close>, whose only use of the quality is to pass it on.
\<close>

theorem quality_ignored:
  "get_ydl_opts file_format quality1 output_template =
     get_ydl_opts file_format quality2 output_template
   \<and> download_single ydl url file_format quality1 output_template w =
     download_single ydl url file_format quality2 output_template w"
  by (simp add: get_ydl_opts_def download_single_def)

text \<open>
  C4. A format outside mp4, mp3, jpg, png makes \<open>get_ydl_opts\<close> raise \<^verbatim>\<open>ValueError\<close> with
  the message \<^verbatim>\<open>Unsupported format: ...\<close>. The selection is a function of its three
  arguments alone (it takes no world, so it performs no input or output), and
  \<open>download_single\<close> raises the same error with the world exactly as it found it: no call
  into the engine has been made, nothing was logged, the file system is untouched.
\<close>

theorem unsupported_format_rejected:
  assumes "file_format \<notin> set [''mp4'', ''mp3'', ''jpg'', ''png'']"
  shows "get_ydl_opts file_format quality output_template =
           Inl (ValueError (''Unsupported format: '' @ file_format))
         \<and> download_single ydl url file_format quality output_template w =
           (Inl (ValueError (''Unsupported format: '' @ file_format)), w)"
  using assms by (simp add: get_ydl_opts_def download_single_def)

theorem unsupported_format_rejected_witness:
  "''gif'' \<notin> set [''mp4'', ''mp3'', ''jpg'', ''png'']
   \<and> get_ydl_opts ''gif'' ''best'' ''/tmp/job/dl.%(ext)s'' =
       Inl (ValueError ''Unsupported format: gif'')
   \<and> download_single (stub_engine 0 [''dl.gif'']) ''https://example.com/video'' ''gif'' ''best''
         ''/tmp/job/dl.%(ext)s'' start_world =
       (Inl (ValueError ''Unsupported format: gif''), start_world)"
  using unsupported_format_rejected [of "''gif''" "''best''" "''/tmp/job/dl.%(ext)s''"
      "stub_engine 0 [''dl.gif'']" "''https://example.com/video''" start_world]
  by simp

text \<open>
  C5. The claim asks all four configurations for three settings: certificate validation
  disabled, the fixed user-agent string, an engine-level retry budget. The mp4 and mp3
  branches of \<open>get_ydl_opts\<close> set all three. The thumbnail branch, taken for jpg and for
  png, sets the first and has neither a \<^verbatim>\<open>user_agent\<close> nor a \<^verbatim>\<open>retries\<close> key, although a
  thumbnail job fetches from the same sites: here the code falls short of the claim.
\<close>

theorem thumbnail_config_lacks_user_agent_and_retries:
  "map_sum id (\<lambda>opts. (opt_get opts ''nocheckcertificate'', opt_get opts ''user_agent'',
                       opt_get opts ''retries''))
     (get_ydl_opts ''jpg'' ''best'' ''/tmp/job/dl.%(ext)s'') =
     Inr (Some (OBool True), None, None)
   \<and> map_sum id (\<lambda>opts. (opt_get opts ''nocheckcertificate'', opt_get opts ''user_agent'',
                       opt_get opts ''retries''))
     (get_ydl_opts ''png'' ''best'' ''/tmp/job/dl.%(ext)s'') =
     Inr (Some (OBool True), None, None)
   \<and> map_sum id (\<lambda>opts. (opt_get opts ''nocheckcertificate'', opt_get opts ''user_agent'',
                       opt_get opts ''retries''))
     (get_ydl_opts ''mp4'' ''best'' ''/tmp/job/dl.%(ext)s'') =
     Inr (Some (OBool True), Some (OStr DEFAULT_USER_AGENT), Some (OInt 2))
   \<and> map_sum id (\<lambda>opts. (opt_get opts ''nocheckcertificate'', opt_get opts ''user_agent'',
                       opt_get opts ''retries''))
     (get_ydl_opts ''mp3'' ''best'' ''/tmp/job/dl.%(ext)s'') =
     Inr (Some (OBool True), Some (OStr DEFAULT_USER_AGENT), Some (OInt 2))"
  by (simp add: get_ydl_opts_def opt_get_def MAX_DOWNLOAD_RETRIES_def)

section \<open>The extraction invoker\<close>

text \<open>
  C2. The retry loop of \<open>download_single\<close>, unrolled. It calls the engine once; when that
  call returns the loop is left with one call made and nothing logged. When it raises, one
  warning with attempt number 1 and the cause is logged and the engine is called a second
  time, on the file system and environment the first call left; when the second call
  returns the loop is left without an exception, with two calls made and that one warning
  logged; when it raises as well, a second warning with attempt number 2 and its cause is
  logged and the second exception is raised to the caller. So there are at least one and
  at most two calls, one warning per failed call, and an exception leaves the loop exactly
  when the second call fails. In particular, with a stub that raises on its first call and
  writes \<^verbatim>\<open>dl.mp4\<close> on its second, the handler serves the file, after two calls and with
  exactly one warning in the log.
\<close>

theorem retry_loop_unrolled:
  "attempt_loop ydl url opts [0 ..< MAX_DOWNLOAD_RETRIES] w =
     (case ydl url opts (w_files w, w_net w) of
        (None, (files1, net1)) \<Rightarrow>
          (None, w\<lparr>w_files := files1, w_net := net1,
                    w_engine_calls := w_engine_calls w + 1\<rparr>)
      | (Some e1, (files1, net1)) \<Rightarrow>
          (case ydl url opts (files1, net1) of
             (None, (files2, net2)) \<Rightarrow>
               (None, w\<lparr>w_files := files2, w_net := net2,
                         w_engine_calls := w_engine_calls w + 2,
                         w_log := w_log w @ [Warning (''Attempt 1 failed: '' @ str_exn e1)]\<rparr>)
           | (Some e2, (files2, net2)) \<Rightarrow>
               (Some e2, w\<lparr>w_files := files2, w_net := net2,
                            w_engine_calls := w_engine_calls w + 2,
                            w_log := w_log w @ [Warning (''Attempt 1 failed: '' @ str_exn e1),
                                                Warning (''Attempt 2 failed: '' @ str_exn e2)]\<rparr>)))
   \<and> fst (download_get (stub_engine 1 [''dl.mp4'']) video_request start_world) =
       Inr (File_response ''/tmp/job/dl.mp4'' ''JustPaste.mp4'')
   \<and> w_log (snd (download_get (stub_engine 1 [''dl.mp4'']) video_request start_world)) =
       [Warning ''Attempt 1 failed: timed out'']
   \<and> w_engine_calls (snd (download_get (stub_engine 1 [''dl.mp4'']) video_request start_world)) = 2"
proof (intro conjI)
  show "attempt_loop ydl url opts [0 ..< MAX_DOWNLOAD_RETRIES] w =
     (case ydl url opts (w_files w, w_net w) of
        (None, (files1, net1)) \<Rightarrow>
          (None, w\<lparr>w_files := files1, w_net := net1,
                    w_engine_calls := w_engine_calls w + 1\<rparr>)
      | (Some e1, (files1, net1)) \<Rightarrow>
          (case ydl url opts (files1, net1) of
             (None, (files2, net2)) \<Rightarrow>
               (None, w\<lparr>w_files := files2, w_net := net2,
                         w_engine_calls := w_engine_calls w + 2,
                         w_log := w_log w @ [Warning (''Attempt 1 failed: '' @ str_exn e1)]\<rparr>)
           | (Some e2, (files2, net2)) \<Rightarrow>
               (Some e2, w\<lparr>w_files := files2, w_net := net2,
                            w_engine_calls := w_engine_calls w + 2,
                            w_log := w_log w @ [Warning (''Attempt 1 failed: '' @ str_exn e1),
                                                Warning (''Attempt 2 failed: '' @ str_exn e2)]\<rparr>)))"
    unfolding attempts
    by (simp add: attempt_warning_def MAX_DOWNLOAD_RETRIES_def str_nat_1 str_nat_2
        split: prod.splits option.splits)
  show "fst (download_get (stub_engine 1 [''dl.mp4'']) video_request start_world) =
       Inr (File_response ''/tmp/job/dl.mp4'' ''JustPaste.mp4'')"
    by code_simp
  show "w_log (snd (download_get (stub_engine 1 [''dl.mp4'']) video_request start_world)) =
       [Warning ''Attempt 1 failed: timed out'']"
    by code_simp
  show "w_engine_calls (snd (download_get (stub_engine 1 [''dl.mp4'']) video_request start_world)) = 2"
    by code_simp
qed

section \<open>The output resolver\<close>

text \<open>
  C10. The test of a directory entry asks for no dot before the extension and folds the
  case of the entry's name only: an entry matches exactly when the prefix is a prefix of
  its name and the format, as given, is a suffix of its lower-cased name. So
  \<^verbatim>\<open>dl_copymp4\<close> matches format \<^verbatim>\<open>mp4\<close>, and no entry matches \<^verbatim>\<open>MP4\<close>, nor any other
  format that contains an upper-case letter.
\<close>

theorem entry_matches_iff:
  "(entry_matches pfx file_format f \<longleftrightarrow> prefix pfx f \<and> suffix file_format (lower f))
   \<and> entry_matches ''dl'' ''mp4'' ''dl_copymp4''
   \<and> \<not> entry_matches pfx ''MP4'' f
   \<and> ((\<exists>c \<in> set file_format. is_upper c) \<longrightarrow> \<not> entry_matches pfx file_format f)"
proof -
  have a: "entry_matches pfx file_format f \<longleftrightarrow> prefix pfx f \<and> suffix file_format (lower f)"
    for pfx file_format f
    by (simp add: entry_matches_def startswith_prefix endswith_suffix)
  have b: "entry_matches ''dl'' ''mp4'' ''dl_copymp4''"
    by code_simp
  have d: "\<not> entry_matches pfx file_format f" if "\<exists>c \<in> set file_format. is_upper c"
    for pfx file_format f
  proof
    assume "entry_matches pfx file_format f"
    then have "suffix file_format (lower f)" by (simp add: a)
    then have "set file_format \<subseteq> set (lower f)" by (rule set_mono_suffix)
    with that lower_no_upper show False by blast
  qed
  have "is_upper (CHR ''M'')" by code_simp
  then have c: "\<not> entry_matches pfx ''MP4'' f" by (intro d) simp
  from a b c d show ?thesis by blast
qed

theorem entry_matches_iff_witness:
  "(\<exists>c \<in> set ''Mp3''. is_upper c)
   \<and> \<not> entry_matches ''dl'' ''Mp3'' ''dl.Mp3''
   \<and> (entry_matches ''dl'' ''mp3'' ''dl.MP3'' \<longleftrightarrow>
        prefix ''dl'' ''dl.MP3'' \<and> suffix ''mp3'' (lower ''dl.MP3''))"
proof -
  have u: "\<exists>c \<in> set ''Mp3''. is_upper c"
    by code_simp
  from u entry_matches_iff [of "''dl''" "''Mp3''" "''dl.Mp3''"]
  have "\<not> entry_matches ''dl'' ''Mp3'' ''dl.Mp3''" by blast
  with u entry_matches_iff [of "''dl''" "''mp3''" "''dl.MP3''"] show ?thesis by blast
qed

text \<open>
  C3. The resolver is the last stage of \<open>download_single\<close>, reached only with a format
  that \<open>get_ydl_opts\<close> accepts; these are lower-case. For every directory, prefix and
  listing and each such extension, the search returns the path of the first entry, in
  listing order, whose name starts with the prefix and, compared without regard to case,
  ends with the extension, and raises \<^verbatim>\<open>FileNotFoundError\<close> when no entry qualifies. For
  every input at all, \<open>download_single\<close> is config selection, then the retry loop, then
  exactly this search on the listing of the template's directory, with the template's
  base name up to its first dot as prefix; a directory that does not exist raises
  \<^verbatim>\<open>FileNotFoundError\<close> as well. In a workspace holding \<^verbatim>\<open>dl.mp4\<close> and
  \<^verbatim>\<open>dl.info.json\<close>, in either order, the resolver returns the path of \<^verbatim>\<open>dl.mp4\<close>; in
  an empty workspace it raises \<^verbatim>\<open>FileNotFoundError\<close>.
\<close>

theorem resolver_first_match:
  "(file_format \<in> set [''mp4'', ''mp3'', ''jpg'', ''png''] \<longrightarrow>
      find_downloaded directory pfx file_format entries =
        (case List.find (\<lambda>f. prefix pfx f \<and> suffix (lower file_format) (lower f)) entries of
           None \<Rightarrow> Inl (FileNotFoundError (''No .'' @ file_format @ '' found for '' @ pfx))
         | Some f \<Rightarrow> Inr (os_path_join directory f)))
   \<and> download_single ydl url file_format quality output_template w =
        (case get_ydl_opts file_format quality output_template of
           Inl e \<Rightarrow> (Inl e, w)
         | Inr opts \<Rightarrow>
             (case attempt_loop ydl url opts [0 ..< MAX_DOWNLOAD_RETRIES] w of
                (Some e, w') \<Rightarrow> (Inl e, w')
              | (None, w') \<Rightarrow>
                  ((case w_files w' (os_path_dirname output_template) of
                      None \<Rightarrow> Inl (FileNotFoundError
                        (''[Errno 2] No such file or directory: '' @ [CHR 0x27] @
                           os_path_dirname output_template @ [CHR 0x27]))
                    | Some listing \<Rightarrow>
                        (case List.find
                                (\<lambda>f. prefix (split_dot_first (os_path_basename output_template)) f
                                     \<and> suffix (lower file_format) (lower f)) listing of
                           None \<Rightarrow> Inl (FileNotFoundError
                             (''No .'' @ file_format @ '' found for '' @
                                split_dot_first (os_path_basename output_template)))
                         | Some f \<Rightarrow> Inr (os_path_join (os_path_dirname output_template) f))),
                   w')))
   \<and> resolve_output ''/tmp/job/dl.%(ext)s'' ''mp4''
           (Map.empty(''/tmp/job'' \<mapsto> [''dl.mp4'', ''dl.info.json''])) = Inr ''/tmp/job/dl.mp4''
   \<and> resolve_output ''/tmp/job/dl.%(ext)s'' ''mp4''
           (Map.empty(''/tmp/job'' \<mapsto> [''dl.info.json'', ''dl.mp4''])) = Inr ''/tmp/job/dl.mp4''
   \<and> resolve_output ''/tmp/job/dl.%(ext)s'' ''mp4'' (Map.empty(''/tmp/job'' \<mapsto> [])) =
           Inl (FileNotFoundError ''No .mp4 found for dl'')"
proof -
  have a: "find_downloaded directory pfx file_format entries =
           (case List.find (\<lambda>f. prefix pfx f \<and> suffix (lower file_format) (lower f)) entries of
              None \<Rightarrow> Inl (FileNotFoundError (''No .'' @ file_format @ '' found for '' @ pfx))
            | Some f \<Rightarrow> Inr (os_path_join directory f))"
    if "file_format \<in> set [''mp4'', ''mp3'', ''jpg'', ''png'']" for directory pfx entries
  proof -
    have "entry_matches pfx file_format =
        (\<lambda>f. prefix pfx f \<and> suffix (lower file_format) (lower f))"
      by (rule ext) (simp add: entry_matches_def startswith_prefix endswith_suffix
          supported_lower [OF that])
    then show ?thesis by (simp add: find_downloaded_find)
  qed
  have b: "download_single ydl url file_format quality output_template w =
        (case get_ydl_opts file_format quality output_template of
           Inl e \<Rightarrow> (Inl e, w)
         | Inr opts \<Rightarrow>
             (case attempt_loop ydl url opts [0 ..< MAX_DOWNLOAD_RETRIES] w of
                (Some e, w') \<Rightarrow> (Inl e, w')
              | (None, w') \<Rightarrow>
                  ((case w_files w' (os_path_dirname output_template) of
                      None \<Rightarrow> Inl (FileNotFoundError
                        (''[Errno 2] No such file or directory: '' @ [CHR 0x27] @
                           os_path_dirname output_template @ [CHR 0x27]))
                    | Some listing \<Rightarrow>
                        (case List.find
                                (\<lambda>f. prefix (split_dot_first (os_path_basename output_template)) f
                                     \<and> suffix (lower file_format) (lower f)) listing of
                           None \<Rightarrow> Inl (FileNotFoundError
                             (''No .'' @ file_format @ '' found for '' @
                                split_dot_first (os_path_basename output_template)))
                         | Some f \<Rightarrow> Inr (os_path_join (os_path_dirname output_template) f))),
                   w')))"
  proof (cases "get_ydl_opts file_format quality output_template")
    case (Inl e)
    then show ?thesis by (simp add: download_single_def)
  next
    case (Inr opts)
    then have "file_format \<in> set [''mp4'', ''mp3'', ''jpg'', ''png'']"
      by (rule get_ydl_opts_supported)
    note a [OF this]
    with Inr show ?thesis
      by (simp add: download_single_def resolve_output_def listdir_def Let_def
          split: prod.splits option.splits)
  qed
  have c: "resolve_output ''/tmp/job/dl.%(ext)s'' ''mp4''
           (Map.empty(''/tmp/job'' \<mapsto> [''dl.mp4'', ''dl.info.json''])) = Inr ''/tmp/job/dl.mp4''"
    by code_simp
  have d: "resolve_output ''/tmp/job/dl.%(ext)s'' ''mp4''
           (Map.empty(''/tmp/job'' \<mapsto> [''dl.info.json'', ''dl.mp4''])) = Inr ''/tmp/job/dl.mp4''"
    by code_simp
  have e: "resolve_output ''/tmp/job/dl.%(ext)s'' ''mp4'' (Map.empty(''/tmp/job'' \<mapsto> [])) =
           Inl (FileNotFoundError ''No .mp4 found for dl'')"
    by code_simp
  from a b c d e show ?thesis by blast
qed

theorem resolver_first_match_witness:
  "''mp3'' \<in> set [''mp4'', ''mp3'', ''jpg'', ''png'']
   \<and> find_downloaded ''/tmp/job'' ''dl'' ''mp3'' [''dl.webm'', ''dl.MP3'', ''dl.mp3''] =
       (case List.find (\<lambda>f. prefix ''dl'' f \<and> suffix (lower ''mp3'') (lower f))
               [''dl.webm'', ''dl.MP3'', ''dl.mp3''] of
          None \<Rightarrow> Inl (FileNotFoundError (''No .'' @ ''mp3'' @ '' found for '' @ ''dl''))
        | Some f \<Rightarrow> Inr (os_path_join ''/tmp/job'' f))
   \<and> find_downloaded ''/tmp/job'' ''dl'' ''mp3'' [''dl.webm'', ''dl.MP3'', ''dl.mp3''] =
       Inr ''/tmp/job/dl.MP3''"
proof -
  have h: "''mp3'' \<in> set [''mp4'', ''mp3'', ''jpg'', ''png'']"
    by simp
  have v: "find_downloaded ''/tmp/job'' ''dl'' ''mp3'' [''dl.webm'', ''dl.MP3'', ''dl.mp3''] =
       Inr ''/tmp/job/dl.MP3''"
    by code_simp
  from h resolver_first_match [where file_format = "''mp3''" and directory = "''/tmp/job''"
      and pfx = "''dl''" and entries = "[''dl.webm'', ''dl.MP3'', ''dl.mp3'']"]
  have "find_downloaded ''/tmp/job'' ''dl'' ''mp3'' [''dl.webm'', ''dl.MP3'', ''dl.mp3''] =
       (case List.find (\<lambda>f. prefix ''dl'' f \<and> suffix (lower ''mp3'') (lower f))
               [''dl.webm'', ''dl.MP3'', ''dl.mp3''] of
          None \<Rightarrow> Inl (FileNotFoundError (''No .'' @ ''mp3'' @ '' found for '' @ ''dl''))
        | Some f \<Rightarrow> Inr (os_path_join ''/tmp/job'' f))"
    by blast
  with h v show ?thesis by (intro conjI)
qed

section \<open>The download route\<close>

text \<open>
  C9. When the url or the format argument is absent or empty, \<open>download_get\<close> answers 400
  with the message \<^verbatim>\<open>Missing parameters\<close> and returns the world it was given: no
  directory was created, the engine was not called, no row was added, nothing was logged.
\<close>

theorem missing_parameters_no_effect:
  assumes "py_not (arg_url args) \<or> py_not (arg_format args)"
  shows "download_get ydl args w =
           (Inr (Json_response (JObject [(''error'', JStr ''Missing parameters'')]) 400), w)"
  using assms by (auto simp: download_get_def missing_parameters_def Let_def)

theorem missing_parameters_no_effect_witness:
  "(py_not (arg_url (video_request\<lparr>arg_url := Some []\<rparr>))
      \<or> py_not (arg_format (video_request\<lparr>arg_url := Some []\<rparr>)))
   \<and> download_get (stub_engine 0 [''dl.mp4'']) (video_request\<lparr>arg_url := Some []\<rparr>) start_world =
       (Inr (Json_response (JObject [(''error'', JStr ''Missing parameters'')]) 400), start_world)"
proof -
  have h: "py_not (arg_url (video_request\<lparr>arg_url := Some []\<rparr>))
      \<or> py_not (arg_format (video_request\<lparr>arg_url := Some []\<rparr>))"
    by simp
  from h missing_parameters_no_effect [OF h, of "stub_engine 0 [''dl.mp4'']" start_world]
  show ?thesis by blast
qed

text \<open>
  C1, as the code has it. Whenever both arguments are present and \<open>mkdtemp\<close> has created
  the workspace (empty), the handler returns a response, the file or a 500, and no
  exception escapes it, whatever the extraction engine does. On every such path the
  cleanup step \<^verbatim>\<open>shutil.rmtree(tmp, ignore_errors=True)\<close> runs once, on the file system
  the \<^verbatim>\<open>try\<close> and \<^verbatim>\<open>except\<close> clauses left, and the handler leaves what that step leaves.
  The step returns on every file system. The workspace directory is gone afterwards
  exactly when it was gone before or nothing at or below it stays; so it is gone whenever
  the operating system refuses no removal at or below the workspace, and otherwise it is
  left in place without any error.
\<close>

theorem workspace_cleanup:
  assumes "\<not> py_not (arg_url args)" and "\<not> py_not (arg_format args)"
    and "mkdtemp (w_tmpnames w) (w_files w) = Inr (tmp, files1)"
  shows "files1 tmp = Some []
     \<and> (\<exists>url fmt resp w1 files'.
           arg_url args = Some url \<and> arg_format args = Some fmt
           \<and> download_get_except ydl url fmt (py_or (arg_quality args) ''best'') tmp
                (w\<lparr>w_files := files1\<rparr>) = (resp, w1)
           \<and> rmtree tmp True (w_refused w) (w_files w1) = Inr files'
           \<and> download_get ydl args w = (Inr resp, w1\<lparr>w_files := files'\<rparr>)
           \<and> (files' tmp = None) =
               (w_files w1 tmp = None \<or> \<not> stays (w_refused w) (w_files w1) tmp)
           \<and> (\<not> list_ex (\<lambda>q. q = tmp \<or> below tmp q) (w_refused w) \<longrightarrow> files' tmp = None)
           \<and> ((\<exists>path name. resp = File_response path name)
                \<or> (\<exists>e. resp = Json_response (JObject [(''error'', JStr (str_exn e))]) 500)))
     \<and> (\<exists>files'. rmtree tmp True refused files = Inr files'
           \<and> (files' tmp = None) = (files tmp = None \<or> \<not> stays refused files tmp))"
proof -
  from mkdtemp_creates [OF assms(3)] have created: "files1 tmp = Some []" by simp
  let ?q = "py_or (arg_quality args) ''best''"
  let ?w0 = "w\<lparr>w_files := files1\<rparr>"
  from download_get_job [OF assms(1,2), of ydl w] assms(3)
  obtain url fmt where args: "arg_url args = Some url" "arg_format args = Some fmt"
    and job: "download_get ydl args w = download_get_finally ydl url fmt ?q tmp ?w0"
    by auto
  from finally_result [of ydl url fmt ?q tmp ?w0]
  obtain resp w1 files' where
    ex: "download_get_except ydl url fmt ?q tmp ?w0 = (resp, w1)"
    and rm: "rmtree tmp True (w_refused w1) (w_files w1) = Inr files'"
    and gone: "(files' tmp = None) =
        (w_files w1 tmp = None \<or> \<not> stays (w_refused w1) (w_files w1) tmp)"
    and fin: "download_get_finally ydl url fmt ?q tmp ?w0 = (Inr resp, w1\<lparr>w_files := files'\<rparr>)"
    by (elim exE conjE) (rule that)
  from except_keeps_refused [OF ex] have same: "w_refused w1 = w_refused w" by simp
  from except_cases [OF ex] have shape:
    "(\<exists>path name. resp = File_response path name)
       \<or> (\<exists>e. resp = Json_response (JObject [(''error'', JStr (str_exn e))]) 500)"
    using try_success by blast
  from gone same not_refused_not_stays [of tmp "w_refused w" "w_files w1"]
  have granted: "\<not> list_ex (\<lambda>q. q = tmp \<or> below tmp q) (w_refused w) \<longrightarrow> files' tmp = None"
    by simp
  from args ex rm gone fin job same shape granted have handler:
    "\<exists>url fmt resp w1 files'.
           arg_url args = Some url \<and> arg_format args = Some fmt
           \<and> download_get_except ydl url fmt (py_or (arg_quality args) ''best'') tmp
                (w\<lparr>w_files := files1\<rparr>) = (resp, w1)
           \<and> rmtree tmp True (w_refused w) (w_files w1) = Inr files'
           \<and> download_get ydl args w = (Inr resp, w1\<lparr>w_files := files'\<rparr>)
           \<and> (files' tmp = None) =
               (w_files w1 tmp = None \<or> \<not> stays (w_refused w) (w_files w1) tmp)
           \<and> (\<not> list_ex (\<lambda>q. q = tmp \<or> below tmp q) (w_refused w) \<longrightarrow> files' tmp = None)
           \<and> ((\<exists>path name. resp = File_response path name)
                \<or> (\<exists>e. resp = Json_response (JObject [(''error'', JStr (str_exn e))]) 500))"
    by (intro exI [of _ url] exI [of _ fmt] exI [of _ resp] exI [of _ w1] exI [of _ files']) simp
  from created handler rmtree_ignore_errors [of tmp refused files] show ?thesis by blast
qed

theorem workspace_cleanup_witness:
  "\<not> py_not (arg_url video_request) \<and> \<not> py_not (arg_format video_request)
   \<and> mkdtemp (w_tmpnames start_world) (w_files start_world) =
       Inr (''/tmp/job'', Map.empty(''/tmp/job'' \<mapsto> []))
   \<and> \<not> list_ex (\<lambda>q. q = ''/tmp/job'' \<or> below ''/tmp/job'' q) (w_refused start_world)
   \<and> (\<exists>resp w'. download_get (stub_engine 2 [''dl.mp4'']) video_request start_world = (Inr resp, w')
         \<and> w_files w' ''/tmp/job'' = None
         \<and> ((\<exists>path name. resp = File_response path name)
              \<or> (\<exists>e. resp = Json_response (JObject [(''error'', JStr (str_exn e))]) 500)))
   \<and> (\<exists>resp w'. download_get (stub_engine 0 [''dl.mp4'']) video_request start_world = (Inr resp, w')
         \<and> w_files w' ''/tmp/job'' = None
         \<and> ((\<exists>path name. resp = File_response path name)
              \<or> (\<exists>e. resp = Json_response (JObject [(''error'', JStr (str_exn e))]) 500)))"
proof -
  have h1: "\<not> py_not (arg_url video_request)"
    and h2: "\<not> py_not (arg_format video_request)"
    by (simp_all add: video_request_def)
  have h3: "mkdtemp (w_tmpnames start_world) (w_files start_world) =
       Inr (''/tmp/job'', Map.empty(''/tmp/job'' \<mapsto> []))"
    by (simp add: start_world_def path_exists_def)
  have h4: "\<not> list_ex (\<lambda>q. q = ''/tmp/job'' \<or> below ''/tmp/job'' q) (w_refused start_world)"
    by (simp add: start_world_def)
  have a: "\<exists>resp w'. download_get ydl video_request start_world = (Inr resp, w')
         \<and> w_files w' ''/tmp/job'' = None
         \<and> ((\<exists>path name. resp = File_response path name)
              \<or> (\<exists>e. resp = Json_response (JObject [(''error'', JStr (str_exn e))]) 500))"
    for ydl :: "nat engine"
    using workspace_cleanup [OF h1 h2 h3, of ydl] h4 by fastforce
  from h1 h2 h3 h4 a [of "stub_engine 2 [''dl.mp4'']"] a [of "stub_engine 0 [''dl.mp4'']"]
  show ?thesis by (intro conjI)
qed

text \<open>
  The statement of C1 without the proviso fails where the operating system refuses to
  remove the downloaded file: the handler serves the file, and when it has returned the
  workspace directory still exists and still lists the file.
\<close>

theorem workspace_left_counterexample:
  "fst (download_get (stub_engine 0 [''dl.mp4'']) video_request refusing_world) =
     Inr (File_response ''/tmp/job/dl.mp4'' ''JustPaste.mp4'')
   \<and> w_files (snd (download_get (stub_engine 0 [''dl.mp4'']) video_request refusing_world))
       ''/tmp/job'' = Some [''dl.mp4'']"
proof (intro conjI)
  show "fst (download_get (stub_engine 0 [''dl.mp4'']) video_request refusing_world) =
     Inr (File_response ''/tmp/job/dl.mp4'' ''JustPaste.mp4'')"
    by code_simp
  show "w_files (snd (download_get (stub_engine 0 [''dl.mp4'']) video_request refusing_world))
       ''/tmp/job'' = Some [''dl.mp4'']"
    by code_simp
qed

text \<open>
  C6. When the handler answers with the file, the history table in the world it leaves
  is the table it found followed by exactly one row, which carries the request's url and
  format, the quality (\<^verbatim>\<open>best\<close> when the request gave none), the next key and the clock's
  reading; the download name is \<^verbatim>\<open>JustPaste.\<close> followed by the format. Within the body
  of the \<^verbatim>\<open>try\<close>: when \<open>download_single\<close> raises, the table is as it was; when it returns
  a path, the row is added to the world \<open>download_single\<close> left and \<^verbatim>\<open>send_file\<close> is
  evaluated after that, so the row is in the table whichever way \<^verbatim>\<open>send_file\<close> ends.
\<close>

theorem history_appended_on_success:
  "(fst (download_get ydl args w) = Inr (File_response path name) \<longrightarrow>
      (\<exists>url fmt. arg_url args = Some url \<and> arg_format args = Some fmt
         \<and> name = ''JustPaste.'' @ fmt
         \<and> w_history (snd (download_get ydl args w)) = w_history w @
             [\<lparr>dh_id = next_id (w_history w), dh_url = url, dh_file_format = fmt,
               dh_quality = py_or (arg_quality args) ''best'', dh_timestamp = w_utcnow w\<rparr>]))
   \<and> (fst (download_single ydl url fmt quality (os_path_join tmp ''dl.%(ext)s'') w) = Inl e \<longrightarrow>
        w_history (snd (download_get_try ydl url fmt quality tmp w)) = w_history w)
   \<and> (fst (download_single ydl url fmt quality (os_path_join tmp ''dl.%(ext)s'') w) = Inr path' \<longrightarrow>
        download_get_try ydl url fmt quality tmp w =
          (send_file path' (''JustPaste.'' @ fmt)
             (w_files (snd (download_single ydl url fmt quality (os_path_join tmp ''dl.%(ext)s'') w))),
           add_and_commit url fmt quality
             (snd (download_single ydl url fmt quality (os_path_join tmp ''dl.%(ext)s'') w)))
        \<and> w_history (snd (download_get_try ydl url fmt quality tmp w)) = w_history w @
             [\<lparr>dh_id = next_id (w_history w), dh_url = url, dh_file_format = fmt,
               dh_quality = quality, dh_timestamp = w_utcnow w\<rparr>])"
proof (intro conjI impI)
  assume ok: "fst (download_get ydl args w) = Inr (File_response path name)"
  have present: "\<not> py_not (arg_url args) \<and> \<not> py_not (arg_format args)"
  proof (rule ccontr)
    assume "\<not> ?thesis"
    then have "download_get ydl args w = (Inr missing_parameters, w)"
      by (auto simp: download_get_def Let_def)
    with ok show False by (simp add: missing_parameters_def)
  qed
  with download_get_job [of args ydl w] obtain url fmt where
    args: "arg_url args = Some url" "arg_format args = Some fmt"
    and job: "download_get ydl args w =
             (case mkdtemp (w_tmpnames w) (w_files w) of
                Inl e \<Rightarrow> (Inl e, w)
              | Inr (tmp, files1) \<Rightarrow>
                  download_get_finally ydl url fmt (py_or (arg_quality args) ''best'') tmp
                    (w\<lparr>w_files := files1\<rparr>))"
    by blast
  from ok job obtain tmp files1 where
    mk: "mkdtemp (w_tmpnames w) (w_files w) = Inr (tmp, files1)"
    by (cases "mkdtemp (w_tmpnames w) (w_files w)") auto
  let ?q = "py_or (arg_quality args) ''best''"
  let ?w0 = "w\<lparr>w_files := files1\<rparr>"
  from finally_result [of ydl url fmt ?q tmp ?w0]
  obtain resp w1 files' where
    ex: "download_get_except ydl url fmt ?q tmp ?w0 = (resp, w1)"
    and fin: "download_get_finally ydl url fmt ?q tmp ?w0 = (Inr resp, w1\<lparr>w_files := files'\<rparr>)"
    by (elim exE conjE) (rule that)
  from job mk fin ok have resp: "resp = File_response path name"
    and snd: "snd (download_get ydl args w) = w1\<lparr>w_files := files'\<rparr>"
    by simp_all
  from except_cases [OF ex] resp
  have "download_get_try ydl url fmt ?q tmp ?w0 = (Inr resp, w1)" by auto
  from try_success [OF this] resp snd args
  show "\<exists>url fmt. arg_url args = Some url \<and> arg_format args = Some fmt
         \<and> name = ''JustPaste.'' @ fmt
         \<and> w_history (snd (download_get ydl args w)) = w_history w @
             [\<lparr>dh_id = next_id (w_history w), dh_url = url, dh_file_format = fmt,
               dh_quality = py_or (arg_quality args) ''best'', dh_timestamp = w_utcnow w\<rparr>]"
    by auto
next
  let ?d = "download_single ydl url fmt quality (os_path_join tmp ''dl.%(ext)s'') w"
  assume "fst ?d = Inl e"
  then have d: "?d = (Inl e, snd ?d)" by (cases ?d) simp
  from try_failed [OF d] download_single_keeps [OF d]
  show "w_history (snd (download_get_try ydl url fmt quality tmp w)) = w_history w"
    by simp
next
  let ?d = "download_single ydl url fmt quality (os_path_join tmp ''dl.%(ext)s'') w"
  assume "fst ?d = Inr path'"
  then have d: "?d = (Inr path', snd ?d)" by (cases ?d) simp
  from try_resolved [OF d]
  show t: "download_get_try ydl url fmt quality tmp w =
          (send_file path' (''JustPaste.'' @ fmt) (w_files (snd ?d)),
           add_and_commit url fmt quality (snd ?d))" .
  from t download_single_keeps [OF d]
  show "w_history (snd (download_get_try ydl url fmt quality tmp w)) = w_history w @
             [\<lparr>dh_id = next_id (w_history w), dh_url = url, dh_file_format = fmt,
               dh_quality = quality, dh_timestamp = w_utcnow w\<rparr>]"
    by (simp add: add_and_commit_def)
qed

theorem history_appended_on_success_witness:
  "fst (download_get (stub_engine 0 [''dl.mp4'']) video_request start_world) =
     Inr (File_response ''/tmp/job/dl.mp4'' ''JustPaste.mp4'')
   \<and> (\<exists>url fmt. arg_url video_request = Some url \<and> arg_format video_request = Some fmt
         \<and> ''JustPaste.mp4'' = ''JustPaste.'' @ fmt
         \<and> w_history (snd (download_get (stub_engine 0 [''dl.mp4'']) video_request start_world)) =
             w_history start_world @
             [\<lparr>dh_id = next_id (w_history start_world), dh_url = url, dh_file_format = fmt,
               dh_quality = py_or (arg_quality video_request) ''best'',
               dh_timestamp = w_utcnow start_world\<rparr>])
   \<and> fst (download_single (stub_engine 2 [''dl.mp4'']) ''https://example.com/video'' ''mp4'' ''best''
           (os_path_join ''/tmp/job'' ''dl.%(ext)s'')
           (start_world\<lparr>w_files := Map.empty(''/tmp/job'' \<mapsto> [])\<rparr>)) =
       Inl (EngineError ''timed out'')
   \<and> w_history (snd (download_get_try (stub_engine 2 [''dl.mp4'']) ''https://example.com/video''
           ''mp4'' ''best'' ''/tmp/job''
           (start_world\<lparr>w_files := Map.empty(''/tmp/job'' \<mapsto> [])\<rparr>))) =
       w_history (start_world\<lparr>w_files := Map.empty(''/tmp/job'' \<mapsto> [])\<rparr>)
   \<and> fst (download_single (stub_engine 0 [''dl.mp4'']) ''https://example.com/video'' ''mp4'' ''best''
           (os_path_join ''/tmp/job'' ''dl.%(ext)s'')
           (start_world\<lparr>w_files := Map.empty(''/tmp/job'' \<mapsto> [])\<rparr>)) =
       Inr ''/tmp/job/dl.mp4''
   \<and> w_history (snd (download_get_try (stub_engine 0 [''dl.mp4'']) ''https://example.com/video''
           ''mp4'' ''best'' ''/tmp/job''
           (start_world\<lparr>w_files := Map.empty(''/tmp/job'' \<mapsto> [])\<rparr>))) =
       w_history (start_world\<lparr>w_files := Map.empty(''/tmp/job'' \<mapsto> [])\<rparr>) @
         [\<lparr>dh_id = next_id (w_history (start_world\<lparr>w_files := Map.empty(''/tmp/job'' \<mapsto> [])\<rparr>)),
           dh_url = ''https://example.com/video'', dh_file_format = ''mp4'',
           dh_quality = ''best'',
           dh_timestamp = w_utcnow (start_world\<lparr>w_files := Map.empty(''/tmp/job'' \<mapsto> [])\<rparr>)\<rparr>]"
proof -
  let ?job = "start_world\<lparr>w_files := Map.empty(''/tmp/job'' \<mapsto> [])\<rparr>"
  have h1: "fst (download_get (stub_engine 0 [''dl.mp4'']) video_request start_world) =
     Inr (File_response ''/tmp/job/dl.mp4'' ''JustPaste.mp4'')"
    by code_simp
  have h2: "fst (download_single (stub_engine 2 [''dl.mp4'']) ''https://example.com/video'' ''mp4''
           ''best'' (os_path_join ''/tmp/job'' ''dl.%(ext)s'') ?job) =
       Inl (EngineError ''timed out'')"
    by code_simp
  have h3: "fst (download_single (stub_engine 0 [''dl.mp4'']) ''https://example.com/video'' ''mp4''
           ''best'' (os_path_join ''/tmp/job'' ''dl.%(ext)s'') ?job) =
       Inr ''/tmp/job/dl.mp4''"
    by code_simp
  from h1 history_appended_on_success [where ydl = "stub_engine 0 [''dl.mp4'']"
      and args = video_request and w = start_world and path = "''/tmp/job/dl.mp4''"
      and name = "''JustPaste.mp4''"]
  have a: "\<exists>url fmt. arg_url video_request = Some url \<and> arg_format video_request = Some fmt
         \<and> ''JustPaste.mp4'' = ''JustPaste.'' @ fmt
         \<and> w_history (snd (download_get (stub_engine 0 [''dl.mp4'']) video_request start_world)) =
             w_history start_world @
             [\<lparr>dh_id = next_id (w_history start_world), dh_url = url, dh_file_format = fmt,
               dh_quality = py_or (arg_quality video_request) ''best'',
               dh_timestamp = w_utcnow start_world\<rparr>]"
    by blast
  from h2 history_appended_on_success [where ydl = "stub_engine 2 [''dl.mp4'']"
      and w = ?job and url = "''https://example.com/video''" and fmt = "''mp4''"
      and quality = "''best''" and tmp = "''/tmp/job''" and e = "EngineError ''timed out''"]
  have b: "w_history (snd (download_get_try (stub_engine 2 [''dl.mp4'']) ''https://example.com/video''
           ''mp4'' ''best'' ''/tmp/job'' ?job)) = w_history ?job"
    by blast
  from h3 history_appended_on_success [where ydl = "stub_engine 0 [''dl.mp4'']"
      and w = ?job and url = "''https://example.com/video''" and fmt = "''mp4''"
      and quality = "''best''" and tmp = "''/tmp/job''" and path' = "''/tmp/job/dl.mp4''"]
  have c: "w_history (snd (download_get_try (stub_engine 0 [''dl.mp4'']) ''https://example.com/video''
           ''mp4'' ''best'' ''/tmp/job'' ?job)) =
       w_history ?job @
         [\<lparr>dh_id = next_id (w_history ?job),
           dh_url = ''https://example.com/video'', dh_file_format = ''mp4'',
           dh_quality = ''best'', dh_timestamp = w_utcnow ?job\<rparr>]"
    by blast
  from h1 a h2 b h3 c show ?thesis by (intro conjI)
qed

section \<open>The history route\<close>

text \<open>
  C8. For every world, \<open>history\<close> answers 200 with the \<open>as_dict\<close> images of a list of
  rows that holds the rows of the table, each as often as the table does, and is ordered
  by timestamp descending, newest first. In every image the \<^verbatim>\<open>timestamp\<close> field is the
  row's timestamp through \<open>isoformat\<close> followed by \<^verbatim>\<open>Z\<close>, and for every timestamp in the
  range of \<^verbatim>\<open>datetime\<close> that string is of the ISO-8601 form
  \<^verbatim>\<open>YYYY-MM-DDTHH:MM:SS\<close>, with six fraction digits when the microsecond is not zero,
  suffixed \<^verbatim>\<open>Z\<close>.
\<close>

theorem history_newest_first:
  "(\<exists>records. history w = Json_response (JArray (map (\<lambda>r. JObject (as_dict r)) records)) 200
       \<and> mset records = mset (w_history w)
       \<and> sorted_wrt (\<lambda>a b. timestamp_key (dh_timestamp a) \<ge> timestamp_key (dh_timestamp b)) records)
   \<and> map_of (as_dict r) ''timestamp'' = Some (JStr (isoformat (dh_timestamp r) @ ''Z''))
   \<and> (valid_datetime (dh_timestamp r) \<longrightarrow> iso8601_utc (isoformat (dh_timestamp r) @ ''Z''))"
proof -
  have "history w = Json_response (JArray (map (\<lambda>r. JObject (as_dict r))
          (order_by_timestamp_desc (w_history w)))) 200"
    by (simp add: history_def)
  with order_by_mset order_by_sorted
  have a: "\<exists>records. history w = Json_response (JArray (map (\<lambda>r. JObject (as_dict r)) records)) 200
       \<and> mset records = mset (w_history w)
       \<and> sorted_wrt (\<lambda>a b. timestamp_key (dh_timestamp a) \<ge> timestamp_key (dh_timestamp b)) records"
    by blast
  have b: "map_of (as_dict r) ''timestamp'' = Some (JStr (isoformat (dh_timestamp r) @ ''Z''))"
    by (simp add: as_dict_def)
  from a b isoformat_shape show ?thesis by blast
qed

theorem history_newest_first_witness:
  "valid_datetime (dh_timestamp second_row)
   \<and> iso8601_utc (isoformat (dh_timestamp second_row) @ ''Z'')
   \<and> map_of (as_dict second_row) ''timestamp'' = Some (JStr ''2024-03-09T07:05:00.001234Z'')
   \<and> history recorded_world =
       Json_response (JArray [JObject (as_dict second_row), JObject (as_dict first_row)]) 200"
proof -
  have h: "valid_datetime (dh_timestamp second_row)"
    by (simp add: valid_datetime_def second_row_def)
  have i: "isoformat (dh_timestamp second_row) @ ''Z'' = ''2024-03-09T07:05:00.001234Z''"
    by code_simp
  have l: "history recorded_world =
       Json_response (JArray [JObject (as_dict second_row), JObject (as_dict first_row)]) 200"
    by (simp add: history_def recorded_world_def order_by_timestamp_desc_def first_row_def
        second_row_def start_world_def timestamp_key_def)
  from h history_newest_first [of recorded_world second_row]
  have s: "iso8601_utc (isoformat (dh_timestamp second_row) @ ''Z'')"
    and f: "map_of (as_dict second_row) ''timestamp'' =
      Some (JStr (isoformat (dh_timestamp second_row) @ ''Z''))"
    by blast+
  from f i have f': "map_of (as_dict second_row) ''timestamp'' =
      Some (JStr ''2024-03-09T07:05:00.001234Z'')"
    by (simp only:)
  from h s f' l show ?thesis by (intro conjI)
qed

end
